theory Spec2Isabelle
  imports Complex_Main
begin

section \<open>Array views\<close>

text \<open>
  The kernels of this development read and write field data through AMReX's
  \<^verbatim>\<open>Array4<T>\<close> views, a type of the AMReX library.  A view is modelled by what the
  kernels use of it: the cell contents addressed by three spatial indices and a component
  index, the index box \<open>[begin, end)\<close> tested by \<^verbatim>\<open>contains\<close>, and the component count.
  \<^verbatim>\<open>amrex::Real\<close> is modelled by the type \<open>real\<close>, so all results below are about exact
  arithmetic, not about rounding; C++ \<^verbatim>\<open>int\<close> indices are modelled by \<open>int\<close>.
\<close>

record Dim3 =
  dim3_x :: int
  dim3_y :: int
  dim3_z :: int

record 'a array4 =
  a4_p :: "int \<times> int \<times> int \<times> int \<Rightarrow> 'a"
  a4_begin :: Dim3
  a4_end :: Dim3
  a4_ncomp :: int

type_synonym Array4 = "real array4"

definition contains :: "'a array4 \<Rightarrow> int \<Rightarrow> int \<Rightarrow> int \<Rightarrow> bool" where
  "contains a i j k \<longleftrightarrow>
     dim3_x (a4_begin a) \<le> i \<and> i < dim3_x (a4_end a) \<and>
     dim3_y (a4_begin a) \<le> j \<and> j < dim3_y (a4_end a) \<and>
     dim3_z (a4_begin a) \<le> k \<and> k < dim3_z (a4_end a)"

text \<open>Reading \<^verbatim>\<open>a(i,j,k,n)\<close> and the assignment \<^verbatim>\<open>a(i,j,k,n) = v\<close>.\<close>

definition a4_get :: "'a array4 \<Rightarrow> int \<Rightarrow> int \<Rightarrow> int \<Rightarrow> int \<Rightarrow> 'a" where
  "a4_get a i j k n = a4_p a (i, j, k, n)"

definition a4_set :: "'a array4 \<Rightarrow> int \<Rightarrow> int \<Rightarrow> int \<Rightarrow> int \<Rightarrow> 'a \<Rightarrow> 'a array4" where
  "a4_set a i j k n v = a\<lparr>a4_p := (a4_p a)((i, j, k, n) := v)\<rparr>"

section \<open>Fine-to-coarse interpolation of the charge density\<close>

text \<open>
  \<^verbatim>\<open>Source/Parallelization/InterpolateDensityFineToCoarse.H\<close>.  The functor holds the two
  views, the refinement ratio and the number of components.
\<close>

record 'a interpolate_density_fine_to_coarse =
  m_fine :: "'a array4"
  m_coarse :: "'a array4"
  m_refinement_ratio :: int
  m_number_of_components :: int

type_synonym InterpolateDensityFineToCoarse = "real interpolate_density_fine_to_coarse"



text \<open>The local lambda \<^verbatim>\<open>fine\<close>: zero for an access outside the box of the fine view.\<close>

definition fine :: "Array4 \<Rightarrow> int \<Rightarrow> int \<Rightarrow> int \<Rightarrow> int \<Rightarrow> real" where
  "fine fine_unsafe j k l m =
     (if contains fine_unsafe j k l then a4_get fine_unsafe j k l m else 0)"

text \<open>The right-hand side of the assignment for \<^verbatim>\<open>AMREX_SPACEDIM == 2\<close>.\<close>

definition stencil_2d :: "Array4 \<Rightarrow> int \<Rightarrow> int \<Rightarrow> int \<Rightarrow> int \<Rightarrow> real" where
  "stencil_2d f ii jj kk m =
     0.25 * (
       fine f ii jj kk m +
       0.5 * (
         fine f (ii-1) jj kk m + fine f (ii+1) jj kk m +
         fine f ii (jj-1) kk m + fine f ii (jj+1) kk m
       ) +
       0.25 * (
         fine f (ii-1) (jj-1) kk m + fine f (ii+1) (jj-1) kk m +
         fine f (ii-1) (jj+1) kk m + fine f (ii+1) (jj+1) kk m
       )
     )"

text \<open>The right-hand side of the assignment for \<^verbatim>\<open>AMREX_SPACEDIM == 3\<close>.\<close>

definition stencil_3d :: "Array4 \<Rightarrow> int \<Rightarrow> int \<Rightarrow> int \<Rightarrow> int \<Rightarrow> real" where
  "stencil_3d f ii jj kk m =
     0.125 * (
       fine f ii jj kk m +
       0.5 * (
         fine f (ii-1) jj kk m + fine f (ii+1) jj kk m +
         fine f ii (jj-1) kk m + fine f ii (jj+1) kk m +
         fine f ii jj (kk-1) m + fine f ii jj (kk+1) m
       ) +
       0.25 * (
         fine f (ii-1) (jj-1) kk m + fine f (ii+1) (jj-1) kk m +
         fine f (ii-1) (jj+1) kk m + fine f (ii+1) (jj+1) kk m +
         fine f (ii-1) jj (kk-1) m + fine f (ii+1) jj (kk-1) m +
         fine f (ii-1) jj (kk+1) m + fine f (ii+1) jj (kk+1) m +
         fine f ii (jj-1) (kk-1) m + fine f ii (jj+1) (kk-1) m +
         fine f ii (jj-1) (kk+1) m + fine f ii (jj+1) (kk+1) m
       ) +
       0.125 * (
         fine f (ii-1) (jj-1) (kk-1) m + fine f (ii-1) (jj-1) (kk+1) m +
         fine f (ii-1) (jj+1) (kk-1) m + fine f (ii-1) (jj+1) (kk+1) m +
         fine f (ii+1) (jj-1) (kk-1) m + fine f (ii+1) (jj-1) (kk+1) m +
         fine f (ii+1) (jj+1) (kk-1) m + fine f (ii+1) (jj+1) (kk+1) m
       )
     )"

text \<open>
  One pass of the loop body for component \<open>m\<close>.  The preprocessor constant
  \<^verbatim>\<open>AMREX_SPACEDIM\<close> is the parameter \<open>spacedim\<close>: the 2-D branch assigns to
  \<^verbatim>\<open>coarse(i,j,kk,m)\<close>, the 3-D branch to \<^verbatim>\<open>coarse(i,j,k,m)\<close>, and for any other value the
  body is empty.
\<close>

definition loop_body ::
  "nat \<Rightarrow> Array4 \<Rightarrow> int \<Rightarrow> int \<Rightarrow> int \<Rightarrow> int \<Rightarrow> int \<Rightarrow> int \<Rightarrow> int \<Rightarrow> Array4 \<Rightarrow> Array4" where
  "loop_body spacedim f i j k ii jj kk m coarse =
     (if spacedim = 2 then a4_set coarse i j kk m (stencil_2d f ii jj kk m)
      else if spacedim = 3 then a4_set coarse i j k m (stencil_3d f ii jj kk m)
      else coarse)"

text \<open>The loop \<^verbatim>\<open>for (int m = 0; m < m_number_of_components; ++m)\<close>, entered at \<open>m\<close>.\<close>

function for_m :: "(int \<Rightarrow> 'a array4 \<Rightarrow> 'a array4) \<Rightarrow> int \<Rightarrow> int \<Rightarrow> 'a array4 \<Rightarrow> 'a array4" where
  "for_m body n m coarse = (if m < n then for_m body n (m + 1) (body m coarse) else coarse)"
  by pat_completeness auto
termination
  by (relation "measure (\<lambda>(body, n, m, coarse). nat (n - m))") auto

declare for_m.simps [simp del]

text \<open>
  \<^verbatim>\<open>operator()(i, j, k)\<close>.  The write goes through the view \<open>m_coarse\<close>; the functor with the
  updated coarse data is returned.  The fine view is read-only by its type and the two views
  are views of different arrays, so their contents are kept apart.
\<close>

definition operator_call ::
  "nat \<Rightarrow> InterpolateDensityFineToCoarse \<Rightarrow> int \<Rightarrow> int \<Rightarrow> int \<Rightarrow> InterpolateDensityFineToCoarse" where
  "operator_call spacedim this i j k =
     (let ii = i * m_refinement_ratio this;
          jj = j * m_refinement_ratio this;
          kk = k * m_refinement_ratio this
      in this\<lparr>m_coarse :=
           for_m (loop_body spacedim (m_fine this) i j k ii jj kk)
                 (m_number_of_components this) 0 (m_coarse this)\<rparr>)"

subsection \<open>Notions used to state the properties of the kernel\<close>

text \<open>
  The cell of the coarse view assigned by \<^verbatim>\<open>operator()(i, j, k)\<close> has the third index
  \<open>kk\<close> in the 2-D branch and \<open>k\<close> in the 3-D branch; a 2-D view has the single plane
  \<open>k = 0\<close>, where both agree.
\<close>

definition target_k :: "nat \<Rightarrow> 'a interpolate_density_fine_to_coarse \<Rightarrow> int \<Rightarrow> int" where
  "target_k spacedim this k = (if spacedim = 2 then k * m_refinement_ratio this else k)"

definition written_value ::
  "nat \<Rightarrow> InterpolateDensityFineToCoarse \<Rightarrow> int \<Rightarrow> int \<Rightarrow> int \<Rightarrow> int \<Rightarrow> real" where
  "written_value spacedim this i j k m =
     a4_get (m_coarse (operator_call spacedim this i j k)) i j (target_k spacedim this k) m"

text \<open>
  The offsets of the fine cells read around \<open>(ii, jj, kk)\<close>, the weight \<open>1 / 2 ^ (d + s)\<close> of
  an offset with \<open>s\<close> non-zero entries in \<open>d\<close> dimensions, and the weighted sum of the
  zero-padded fine values.
\<close>

definition offsets :: "nat \<Rightarrow> (int \<times> int \<times> int) list" where
  "offsets spacedim =
     [(a, b, c). a \<leftarrow> [-1, 0, 1], b \<leftarrow> [-1, 0, 1],
                 c \<leftarrow> (if spacedim = 3 then [-1, 0, 1] else [0])]"

definition binomial_weight :: "nat \<Rightarrow> int \<times> int \<times> int \<Rightarrow> real" where
  "binomial_weight spacedim = (\<lambda>(a, b, c). 1 / 2 ^ (spacedim + nat (\<bar>a\<bar> + \<bar>b\<bar> + \<bar>c\<bar>)))"

definition weighted_sum :: "nat \<Rightarrow> Array4 \<Rightarrow> int \<Rightarrow> int \<Rightarrow> int \<Rightarrow> int \<Rightarrow> real" where
  "weighted_sum spacedim f ii jj kk m =
     (\<Sum>(a, b, c) \<leftarrow> offsets spacedim.
        binomial_weight spacedim (a, b, c) * fine f (ii + a) (jj + b) (kk + c) m)"




text \<open>
  The weight of the first neighbour shell as the specification words it, 2 to the power
  \<open>- d + 1\<close>.
\<close>

definition claimed_first_shell_weight :: "nat \<Rightarrow> real" where
  "claimed_first_shell_weight d = 2 powr (- real d + 1)"


text \<open>A view with the given box, one component and the given contents.\<close>

definition box_view ::
  "int \<times> int \<times> int \<Rightarrow> int \<times> int \<times> int \<Rightarrow> int \<Rightarrow> (int \<times> int \<times> int \<times> int \<Rightarrow> 'a) \<Rightarrow>
     'a array4" where
  "box_view lo hi n d =
     \<lparr>a4_p = d,
      a4_begin = \<lparr>dim3_x = fst lo, dim3_y = fst (snd lo), dim3_z = snd (snd lo)\<rparr>,
      a4_end = \<lparr>dim3_x = fst hi, dim3_y = fst (snd hi), dim3_z = snd (snd hi)\<rparr>,
      a4_ncomp = n\<rparr>"


section \<open>Cartesian nodal finite-difference algorithm\<close>

text \<open>
  \<^verbatim>\<open>Source/FieldSolver/FiniteDifferenceSolver/FiniteDifferenceAlgorithms/CartesianNodalAlgorithm.H\<close>.
  The coefficient vectors are lists; \<^verbatim>\<open>resize(1)\<close> followed by the assignment of element 0
  leaves the one-element list.  The three-argument access \<^verbatim>\<open>F(i,j,k)\<close> reads component 0.
  The build configuration (\<^verbatim>\<open>WARPX_DIM_3D\<close> or \<^verbatim>\<open>WARPX_DIM_XZ\<close>) is a parameter.
\<close>

datatype warpx_dim = WARPX_DIM_3D | WARPX_DIM_XZ

definition a4_get3 :: "Array4 \<Rightarrow> int \<Rightarrow> int \<Rightarrow> int \<Rightarrow> real" where
  "a4_get3 a i j k = a4_p a (i, j, k, 0)"


definition UpwardDx :: "Array4 \<Rightarrow> real list \<Rightarrow> int \<Rightarrow> int \<Rightarrow> int \<Rightarrow> int \<Rightarrow> real" where
  "UpwardDx F coefs_x n_coefs_x i j k =
     (let inv_dx = coefs_x ! 0
      in 0.5 * inv_dx * (a4_get3 F (i+1) j k - a4_get3 F (i-1) j k))"

definition DownwardDx :: "Array4 \<Rightarrow> real list \<Rightarrow> int \<Rightarrow> int \<Rightarrow> int \<Rightarrow> int \<Rightarrow> real" where
  "DownwardDx F coefs_x n_coefs_x i j k = UpwardDx F coefs_x n_coefs_x i j k"

definition UpwardDy :: "warpx_dim \<Rightarrow> Array4 \<Rightarrow> real list \<Rightarrow> int \<Rightarrow> int \<Rightarrow> int \<Rightarrow> int \<Rightarrow> real" where
  "UpwardDy wdim F coefs_y n_coefs_y i j k =
     (case wdim of
        WARPX_DIM_3D \<Rightarrow>
          (let inv_dy = coefs_y ! 0
           in 0.5 * inv_dy * (a4_get3 F i (j+1) k - a4_get3 F i (j-1) k))
      | WARPX_DIM_XZ \<Rightarrow> 0)"

definition DownwardDy :: "warpx_dim \<Rightarrow> Array4 \<Rightarrow> real list \<Rightarrow> int \<Rightarrow> int \<Rightarrow> int \<Rightarrow> int \<Rightarrow> real" where
  "DownwardDy wdim F coefs_y n_coefs_y i j k = UpwardDy wdim F coefs_y n_coefs_y i j k"

definition UpwardDz :: "warpx_dim \<Rightarrow> Array4 \<Rightarrow> real list \<Rightarrow> int \<Rightarrow> int \<Rightarrow> int \<Rightarrow> int \<Rightarrow> real" where
  "UpwardDz wdim F coefs_z n_coefs_z i j k =
     (let inv_dz = coefs_z ! 0
      in case wdim of
           WARPX_DIM_3D \<Rightarrow> 0.5 * inv_dz * (a4_get3 F i j (k+1) - a4_get3 F i j (k-1))
         | WARPX_DIM_XZ \<Rightarrow> 0.5 * inv_dz * (a4_get3 F i (j+1) k - a4_get3 F i (j-1) k))"

definition DownwardDz :: "warpx_dim \<Rightarrow> Array4 \<Rightarrow> real list \<Rightarrow> int \<Rightarrow> int \<Rightarrow> int \<Rightarrow> int \<Rightarrow> real" where
  "DownwardDz wdim F coefs_z n_coefs_z i j k = UpwardDz wdim F coefs_z n_coefs_z i j k"

text \<open>A field that is 1 in one cell and 0 in every other cell of its box.\<close>

definition unit_field :: "int \<times> int \<times> int \<Rightarrow> int \<times> int \<times> int \<Rightarrow> int \<times> int \<times> int \<Rightarrow> Array4" where
  "unit_field lo hi c =
     box_view lo hi 1 (\<lambda>(i, j, k, n). if (i, j, k) = c \<and> n = 0 then 1 else 0)"

section \<open>Guard-cell manager\<close>

text \<open>
  \<^verbatim>\<open>Source/Parallelization/GuardCellManager.H\<close> declares the class: ten width vectors, each
  initialised to the zero vector, and the member function \<^verbatim>\<open>Init\<close> with its parameters.
  An \<^verbatim>\<open>amrex::IntVect\<close> is modelled by a triple of integers.
\<close>

type_synonym IntVect = "int \<times> int \<times> int"

definition TheZeroVector :: IntVect where
  "TheZeroVector = (0, 0, 0)"

record guardCellManager =
  ng_alloc_EB :: IntVect
  ng_alloc_J :: IntVect
  ng_alloc_Rho :: IntVect
  ng_alloc_F :: IntVect
  ng_FieldSolver :: IntVect
  ng_FieldSolverF :: IntVect
  ng_FieldGather :: IntVect
  ng_UpdateAux :: IntVect
  ng_MovingWindow :: IntVect
  ng_Extra :: IntVect

definition guardCellManager_new :: guardCellManager where
  "guardCellManager_new =
     \<lparr>ng_alloc_EB = TheZeroVector, ng_alloc_J = TheZeroVector, ng_alloc_Rho = TheZeroVector,
      ng_alloc_F = TheZeroVector, ng_FieldSolver = TheZeroVector, ng_FieldSolverF = TheZeroVector,
      ng_FieldGather = TheZeroVector, ng_UpdateAux = TheZeroVector,
      ng_MovingWindow = TheZeroVector, ng_Extra = TheZeroVector\<rparr>"

text \<open>The parameters of \<^verbatim>\<open>Init\<close> other than \<^verbatim>\<open>safe_guard_cells\<close>.\<close>

record guard_options =
  do_subcycling :: bool
  do_fdtd_nci_corr :: bool
  do_nodal :: bool
  do_moving_window :: bool
  aux_is_nodal :: bool
  moving_window_dir :: int
  nox :: int
  nox_fft :: int
  noy_fft :: int
  noz_fft :: int
  nci_corr_stencil :: int
  maxwell_fdtd_solver_id :: int
  max_level :: int
  v_galilean :: "real \<times> real \<times> real"

datatype width_kind =
  Alloc_EB | Alloc_J | Alloc_Rho | Alloc_F | FieldSolver | FieldSolverF | FieldGather |
  UpdateAux | MovingWindow | Extra

definition intvect_max :: "IntVect \<Rightarrow> IntVect \<Rightarrow> IntVect" where
  "intvect_max = (\<lambda>(a1, a2, a3) (b1, b2, b3). (max a1 b1, max a2 b2, max a3 b3))"

definition intvect_le :: "IntVect \<Rightarrow> IntVect \<Rightarrow> bool" where
  "intvect_le = (\<lambda>(a1, a2, a3) (b1, b2, b3). a1 \<le> b1 \<and> a2 \<le> b2 \<and> a3 \<le> b3)"

text \<open>
  Modelled from the spec: the body of \<^verbatim>\<open>guardCellManager::Init\<close>, which is defined in
  \<^verbatim>\<open>GuardCellManager.cpp\<close> and is not among the sources.  The specification says that each
  width is the maximum over all features that require halo data at that stage, that with the
  safe flag the maximum supported width is used irrespective of enabled features, and that
  widths are never negative.  The features of a configuration, each with its enabled flag and
  the width it requires for every width vector, are the parameter \<open>features\<close>; the
  specification does not give their values.
\<close>

definition required_width ::
  "(guard_options \<Rightarrow> (bool \<times> (width_kind \<Rightarrow> IntVect)) list) \<Rightarrow>
     guard_options \<Rightarrow> bool \<Rightarrow> width_kind \<Rightarrow> IntVect" where
  "required_width features opts safe_guard_cells kind =
     foldr intvect_max
       (map (\<lambda>(enabled, width). width kind)
          (filter (\<lambda>(enabled, width). safe_guard_cells \<or> enabled) (features opts)))
       TheZeroVector"

definition Init ::
  "(guard_options \<Rightarrow> (bool \<times> (width_kind \<Rightarrow> IntVect)) list) \<Rightarrow>
     guard_options \<Rightarrow> bool \<Rightarrow> guardCellManager \<Rightarrow> guardCellManager" where
  "Init features opts safe_guard_cells this =
     this\<lparr>ng_alloc_EB := required_width features opts safe_guard_cells Alloc_EB,
          ng_alloc_J := required_width features opts safe_guard_cells Alloc_J,
          ng_alloc_Rho := required_width features opts safe_guard_cells Alloc_Rho,
          ng_alloc_F := required_width features opts safe_guard_cells Alloc_F,
          ng_FieldSolver := required_width features opts safe_guard_cells FieldSolver,
          ng_FieldSolverF := required_width features opts safe_guard_cells FieldSolverF,
          ng_FieldGather := required_width features opts safe_guard_cells FieldGather,
          ng_UpdateAux := required_width features opts safe_guard_cells UpdateAux,
          ng_MovingWindow := required_width features opts safe_guard_cells MovingWindow,
          ng_Extra := required_width features opts safe_guard_cells Extra\<rparr>"

definition all_widths :: "guardCellManager \<Rightarrow> IntVect list" where
  "all_widths g =
     [ng_alloc_EB g, ng_alloc_J g, ng_alloc_Rho g, ng_alloc_F g, ng_FieldSolver g,
      ng_FieldSolverF g, ng_FieldGather g, ng_UpdateAux g, ng_MovingWindow g, ng_Extra g]"

section \<open>PSATD algorithm in RZ geometry\<close>

text \<open>
  \<^verbatim>\<open>Source/FieldSolver/SpectralSolver/SpectralAlgorithms/PsatdAlgorithmRZ.H\<close> declares the
  class: the flag \<^verbatim>\<open>coefficients_initialized\<close>, the saved time step \<^verbatim>\<open>dt\<close>, the five
  coefficient tables and, from the base class, \<^verbatim>\<open>modified_kz_vec\<close>.  A table holds one
  value for each pair of a spectral mode and a wavenumber.
\<close>

record PsatdAlgorithmRZ =
  modified_kz_vec :: "real list"
  coefficients_initialized :: bool
  dt :: real
  C_coef :: "real list"
  S_ck_coef :: "real list"
  X1_coef :: "real list"
  X2_coef :: "real list"
  X3_coef :: "real list"

text \<open>
  Modelled from the spec: the constructor of \<^verbatim>\<open>PsatdAlgorithmRZ\<close>, defined in
  \<^verbatim>\<open>PsatdAlgorithmRZ.cpp\<close>, which is not among the sources.  The algorithm starts in the
  state \<open>Uninitialized\<close> with the time step saved.
\<close>

definition PsatdAlgorithmRZ_ctor :: "real list \<Rightarrow> real \<Rightarrow> PsatdAlgorithmRZ" where
  "PsatdAlgorithmRZ_ctor kz dt_step =
     \<lparr>modified_kz_vec = kz, coefficients_initialized = False, dt = dt_step,
      C_coef = [], S_ck_coef = [], X1_coef = [], X2_coef = [], X3_coef = []\<rparr>"

text \<open>
  Modelled from the spec: the body of \<^verbatim>\<open>PsatdAlgorithmRZ::InitializeSpectralCoefficients\<close>,
  defined in \<^verbatim>\<open>PsatdAlgorithmRZ.cpp\<close>, which is not among the sources.  The specification
  says that the first call computes \<open>C = cos(c k dt)\<close>, \<open>S_ck = sin(c k dt)/(c k)\<close> and the
  source-term coefficients \<open>X1\<close>, \<open>X2\<close>, \<open>X3\<close> derived from them, and that a later call is a
  no-op guarded by the flag.  The speed of light \<open>c\<close>, the wavenumbers \<open>k_of f\<close> that the
  field data and the modified wavenumbers give, and the derivation of \<open>X1\<close>, \<open>X2\<close>, \<open>X3\<close>
  from \<open>C\<close> and \<open>S_ck\<close> are parameters; the specification does not give them.
\<close>

definition InitializeSpectralCoefficients ::
  "real \<Rightarrow> ('f \<Rightarrow> real list \<Rightarrow> real list) \<Rightarrow> (real \<Rightarrow> real \<Rightarrow> real \<times> real \<times> real) \<Rightarrow>
     'f \<Rightarrow> PsatdAlgorithmRZ \<Rightarrow> PsatdAlgorithmRZ" where
  "InitializeSpectralCoefficients c k_of X_of f this =
     (if coefficients_initialized this then this
      else
        (let ks = k_of f (modified_kz_vec this);
             C = map (\<lambda>k. cos (c * k * dt this)) ks;
             S_ck = map (\<lambda>k. sin (c * k * dt this) / (c * k)) ks;
             X = map2 X_of C S_ck
         in this\<lparr>coefficients_initialized := True,
                 C_coef := C, S_ck_coef := S_ck,
                 X1_coef := map fst X,
                 X2_coef := map (\<lambda>x. fst (snd x)) X,
                 X3_coef := map (\<lambda>x. snd (snd x)) X\<rparr>))"

definition coefficient_tables ::
  "PsatdAlgorithmRZ \<Rightarrow> real list \<times> real list \<times> real list \<times> real list \<times> real list" where
  "coefficient_tables this = (C_coef this, S_ck_coef this, X1_coef this, X2_coef this, X3_coef this)"

section \<open>Concrete data\<close>

text \<open>Small kernels and fields on which the definitions above are evaluated.\<close>

definition face_kernel :: InterpolateDensityFineToCoarse where
  "face_kernel =
     \<lparr>m_fine = unit_field (-1, -1, -1) (2, 2, 2) (1, 0, 0),
      m_coarse = box_view (0, 0, 0) (1, 1, 1) 1 (\<lambda>c. 0),
      m_refinement_ratio = 2, m_number_of_components = 1\<rparr>"

definition shell_kernel :: InterpolateDensityFineToCoarse where
  "shell_kernel =
     \<lparr>m_fine = box_view (-1, -1, -1) (2, 2, 2) 1
                (\<lambda>(i, j, k, n). if \<bar>i\<bar> + \<bar>j\<bar> + \<bar>k\<bar> = 1 then 1 else 0),
      m_coarse = box_view (0, 0, 0) (1, 1, 1) 1 (\<lambda>c. 0),
      m_refinement_ratio = 2, m_number_of_components = 1\<rparr>"

definition ramp_kernel :: InterpolateDensityFineToCoarse where
  "ramp_kernel =
     \<lparr>m_fine = box_view (0, 0, 0) (4, 4, 1) 1 (\<lambda>(i, j, k, n). of_int i),
      m_coarse = box_view (0, 0, 0) (2, 2, 1) 1 (\<lambda>c. 0),
      m_refinement_ratio = 2, m_number_of_components = 1\<rparr>"


section \<open>Properties of the fine-to-coarse interpolation\<close>

subsection \<open>The loop and the stencils in closed form\<close>

text \<open>
  The loop assigns the components \<open>m0, \<dots>, n - 1\<close> of one cell and nothing else; the two
  stencil expressions are the sums of the zero-padded fine values over the offsets, each
  with its binomial weight.
\<close>

lemma for_m_set:
  "for_m (\<lambda>m c. a4_set c x y z m (v m)) n m0 c =
     c\<lparr>a4_p := (\<lambda>(a, b, e, q).
          if (a, b, e) = (x, y, z) \<and> m0 \<le> q \<and> q < n then v q else a4_p c (a, b, e, q))\<rparr>"
proof (induction "\<lambda>m c. a4_set c x y z m (v m)" n m0 c rule: for_m.induct)
  case (1 n m coarse)
  show ?case
  proof (cases "m < n")
    case True
    then show ?thesis
      using 1 by (subst for_m.simps) (auto intro!: array4.equality simp: a4_set_def fun_eq_iff)
  next
    case False
    then show ?thesis by (subst for_m.simps) (auto intro!: array4.equality simp: fun_eq_iff)
  qed
qed

lemma for_m_skip: "for_m (\<lambda>m c. c) n m0 c = c"
  by (induction "\<lambda>(m::int) (c::'a array4). c" n m0 c rule: for_m.induct) (subst for_m.simps, auto)

lemma stencil_3d_weighted: "stencil_3d f ii jj kk m = weighted_sum 3 f ii jj kk m"
  by (simp add: stencil_3d_def weighted_sum_def offsets_def binomial_weight_def add_divide_distrib)

lemma stencil_2d_weighted: "stencil_2d f ii jj kk m = weighted_sum 2 f ii jj kk m"
  by (simp add: stencil_2d_def weighted_sum_def offsets_def binomial_weight_def add_divide_distrib)

lemma operator_call_eq:
  assumes "spacedim = 2 \<or> spacedim = 3"
  shows "operator_call spacedim this i j k =
     this\<lparr>m_coarse := (m_coarse this)\<lparr>a4_p := (\<lambda>(a, b, e, q).
        if (a, b, e) = (i, j, target_k spacedim this k) \<and> 0 \<le> q \<and> q < m_number_of_components this
        then weighted_sum spacedim (m_fine this) (i * m_refinement_ratio this)
               (j * m_refinement_ratio this) (k * m_refinement_ratio this) q
        else a4_p (m_coarse this) (a, b, e, q))\<rparr>\<rparr>"
  using assms
  by (auto simp: operator_call_def Let_def loop_body_def [abs_def] target_k_def for_m_set
      stencil_2d_weighted stencil_3d_weighted)

lemma operator_call_other:
  assumes "spacedim \<noteq> 2" "spacedim \<noteq> 3"
  shows "operator_call spacedim this i j k = this"
  using assms by (simp add: operator_call_def Let_def loop_body_def [abs_def] for_m_skip)

lemma written_value_eq:
  assumes "spacedim = 2 \<or> spacedim = 3" "0 \<le> m" "m < m_number_of_components this"
  shows "written_value spacedim this i j k m =
     weighted_sum spacedim (m_fine this) (i * m_refinement_ratio this)
        (j * m_refinement_ratio this) (k * m_refinement_ratio this) m"
  using assms by (simp add: written_value_def operator_call_eq a4_get_def)






lemma fine_box_view:
  "fine (box_view (x0, y0, z0) (x1, y1, z1) n d) a b e m =
     (if x0 \<le> a \<and> a < x1 \<and> y0 \<le> b \<and> b < y1 \<and> z0 \<le> e \<and> e < z1 then d (a, b, e, m) else 0)"
  by (simp add: fine_def contains_def box_view_def a4_get_def)

text \<open>
  Claim C1 as stated gives the first neighbour shell the weight \<open>2 powr (- d + 1)\<close>, which is
  \<open>1/4\<close> for \<open>d = 3\<close>.  In three dimensions a fine field that is 1 on the face neighbour
  \<open>(1, 0, 0)\<close> of the centred cell and 0 elsewhere yields \<open>1/16\<close>, so one cell of the shell
  has the weight \<open>1/16\<close>; a fine field that is 1 on all six face neighbours and 0 elsewhere
  yields \<open>3/8\<close>, so the whole shell has the weight \<open>3/8\<close>.  Neither is \<open>1/4\<close>.
\<close>

theorem first_shell_weight_counterexample:
  "written_value 3 face_kernel 0 0 0 0 = 1 / 16 \<and>
   written_value 3 face_kernel 0 0 0 0 \<noteq> claimed_first_shell_weight 3 \<and>
   written_value 3 shell_kernel 0 0 0 0 = 3 / 8 \<and>
   written_value 3 shell_kernel 0 0 0 0 \<noteq> claimed_first_shell_weight 3"
proof -
  have "written_value 3 face_kernel 0 0 0 0 = 1 / 16"
    by (simp add: written_value_eq face_kernel_def weighted_sum_def offsets_def
        binomial_weight_def unit_field_def fine_box_view)
  moreover have "written_value 3 shell_kernel 0 0 0 0 = 3 / 8"
    by (simp add: written_value_eq shell_kernel_def weighted_sum_def offsets_def
        binomial_weight_def fine_box_view)
  moreover have "claimed_first_shell_weight 3 = 1 / 4"
    by (simp add: claimed_first_shell_weight_def powr_minus_divide)
  ultimately show ?thesis by simp
qed

text \<open>
  Claim C1, as amended: for every coarse cell and every component the restriction operator
  writes the weighted average of the nearest fine cell and its face, edge and corner
  neighbours (zero outside the fine box) with binomial weights, where a fine cell offset
  along \<open>s\<close> of the axes has the weight \<open>1 / 2 ^ (d + s)\<close> and \<open>d\<close> is the number of spatial
  dimensions (2 or 3): the centred fine cell has the weight \<open>1 / 2 ^ d\<close> and each cell of the
  first neighbour shell has the weight \<open>1 / 2 ^ (d + 1)\<close>.  This is the bilinear or trilinear
  restriction stencil, the tensor product of \<open>(1/4, 1/2, 1/4)\<close>.
\<close>

theorem restriction_binomial_weights:
  assumes "spacedim = 2 \<or> spacedim = 3" and "0 \<le> m" and "m < m_number_of_components this"
  shows "written_value spacedim this i j k m =
     (\<Sum>(a, b, c) \<leftarrow> offsets spacedim.
        1 / 2 ^ (spacedim + nat (\<bar>a\<bar> + \<bar>b\<bar> + \<bar>c\<bar>)) *
        fine (m_fine this) (i * m_refinement_ratio this + a)
          (j * m_refinement_ratio this + b) (k * m_refinement_ratio this + c) m)"
  using assms
  by (simp add: written_value_eq weighted_sum_def binomial_weight_def)

text \<open>
  In two dimensions, on the fine field \<open>F(i, j) = i\<close> over the box \<open>[0, 4) \<times> [0, 4)\<close>, the
  coarse cell \<open>(1, 1)\<close> receives \<open>2\<close>.
\<close>

theorem restriction_binomial_weights_witness:
  "(2 = (2::nat) \<or> 2 = (3::nat)) \<and> (0::int) \<le> 0 \<and> 0 < m_number_of_components ramp_kernel \<and>
   written_value 2 ramp_kernel 1 1 0 0 = 2"
  using restriction_binomial_weights [of 2 0 ramp_kernel 1 1 0]
  by (simp add: ramp_kernel_def offsets_def fine_box_view)















lemma operator_call_fields:
  "m_fine (operator_call spacedim this i j k) = m_fine this"
  "m_refinement_ratio (operator_call spacedim this i j k) = m_refinement_ratio this"
  "m_number_of_components (operator_call spacedim this i j k) = m_number_of_components this"
  "interpolate_density_fine_to_coarse.more (operator_call spacedim this i j k) =
     interpolate_density_fine_to_coarse.more this"
  "target_k spacedim (operator_call spacedim this i j k) = target_k spacedim this"
  by (simp_all add: operator_call_def Let_def target_k_def fun_eq_iff)

lemma operator_call_coarse_p:
  assumes "spacedim = 2 \<or> spacedim = 3"
  shows "a4_p (m_coarse (operator_call spacedim this i j k)) (a, b, e, q) =
     (if (a, b, e) = (i, j, target_k spacedim this k) \<and> 0 \<le> q \<and> q < m_number_of_components this
      then weighted_sum spacedim (m_fine this) (i * m_refinement_ratio this)
             (j * m_refinement_ratio this) (k * m_refinement_ratio this) q
      else a4_p (m_coarse this) (a, b, e, q))"
  by (simp add: operator_call_eq [OF assms])

lemma operator_call_coarse_shape:
  "a4_begin (m_coarse (operator_call spacedim this i j k)) = a4_begin (m_coarse this)"
  "a4_end (m_coarse (operator_call spacedim this i j k)) = a4_end (m_coarse this)"
  "a4_ncomp (m_coarse (operator_call spacedim this i j k)) = a4_ncomp (m_coarse this)"
  "array4.more (m_coarse (operator_call spacedim this i j k)) = array4.more (m_coarse this)"
proof -
  show "a4_begin (m_coarse (operator_call spacedim this i j k)) = a4_begin (m_coarse this)"
    by (cases "spacedim = 2 \<or> spacedim = 3") (simp_all add: operator_call_eq operator_call_other)
  show "a4_end (m_coarse (operator_call spacedim this i j k)) = a4_end (m_coarse this)"
    by (cases "spacedim = 2 \<or> spacedim = 3") (simp_all add: operator_call_eq operator_call_other)
  show "a4_ncomp (m_coarse (operator_call spacedim this i j k)) = a4_ncomp (m_coarse this)"
    by (cases "spacedim = 2 \<or> spacedim = 3") (simp_all add: operator_call_eq operator_call_other)
  show "array4.more (m_coarse (operator_call spacedim this i j k)) = array4.more (m_coarse this)"
    by (cases "spacedim = 2 \<or> spacedim = 3") (simp_all add: operator_call_eq operator_call_other)
qed

lemma operator_call_commute:
  "operator_call spacedim (operator_call spacedim this i j k) i' j' k' =
   operator_call spacedim (operator_call spacedim this i' j' k') i j k"
proof (cases "spacedim = 2 \<or> spacedim = 3")
  case True
  have "a4_p (m_coarse (operator_call spacedim (operator_call spacedim this i j k) i' j' k')) c =
        a4_p (m_coarse (operator_call spacedim (operator_call spacedim this i' j' k') i j k)) c" for c
  proof -
    obtain a b e q where c: "c = (a, b, e, q)" by (cases c)
    show ?thesis
      unfolding c
      apply (simp only: operator_call_coarse_p [OF True] operator_call_fields)
      apply (cases "spacedim = 2")
       apply (simp_all add: target_k_def)
      done
  qed
  then have "m_coarse (operator_call spacedim (operator_call spacedim this i j k) i' j' k') =
        m_coarse (operator_call spacedim (operator_call spacedim this i' j' k') i j k)"
    by (intro array4.equality ext) (simp_all add: operator_call_coarse_shape)
  then show ?thesis
    by (intro interpolate_density_fine_to_coarse.equality) (simp_all add: operator_call_fields)
next
  case False
  then show ?thesis by (simp add: operator_call_other)
qed

text \<open>
  Claim C10: an invocation of the kernel at \<open>(i, j, k)\<close> leaves the fine view and the shape of
  the coarse view as they are and changes the coarse data at most in the components
  \<open>0, \<dots>, m_number_of_components - 1\<close> of the cell \<open>(i, j, target_k)\<close>, which is the cell
  \<open>(i, j, k)\<close> in three dimensions and on the plane \<open>k = 0\<close> of a two-dimensional view.  The
  values written do not depend on the coarse data before the call, and two invocations give
  the same result in either order.
\<close>

theorem operator_call_frame:
  "m_fine (operator_call spacedim this i j k) = m_fine this \<and>
   a4_begin (m_coarse (operator_call spacedim this i j k)) = a4_begin (m_coarse this) \<and>
   a4_end (m_coarse (operator_call spacedim this i j k)) = a4_end (m_coarse this) \<and>
   a4_ncomp (m_coarse (operator_call spacedim this i j k)) = a4_ncomp (m_coarse this) \<and>
   (\<forall>a b e q. (a, b, e) \<noteq> (i, j, target_k spacedim this k) \<or> q < 0 \<or> m_number_of_components this \<le> q
      \<longrightarrow> a4_get (m_coarse (operator_call spacedim this i j k)) a b e q = a4_get (m_coarse this) a b e q) \<and>
   (spacedim = 3 \<or> spacedim = 2 \<and> k = 0 \<longrightarrow> target_k spacedim this k = k) \<and>
   (spacedim = 2 \<or> spacedim = 3 \<longrightarrow>
      (\<forall>q c'. 0 \<le> q \<and> q < m_number_of_components this \<longrightarrow>
         written_value spacedim (this\<lparr>m_coarse := c'\<rparr>) i j k q = written_value spacedim this i j k q)) \<and>
   operator_call spacedim (operator_call spacedim this i j k) i' j' k' =
     operator_call spacedim (operator_call spacedim this i' j' k') i j k"
proof -
  have other: "a4_get (m_coarse (operator_call spacedim this i j k)) a b e q = a4_get (m_coarse this) a b e q"
    if "(a, b, e) \<noteq> (i, j, target_k spacedim this k) \<or> q < 0 \<or> m_number_of_components this \<le> q"
    for a b e q
  proof (cases "spacedim = 2 \<or> spacedim = 3")
    case True
    show ?thesis
      unfolding a4_get_def operator_call_coarse_p [OF True] using that by auto
  next
    case False
    then show ?thesis by (simp add: operator_call_other)
  qed
  have indep: "written_value spacedim (this\<lparr>m_coarse := c'\<rparr>) i j k q = written_value spacedim this i j k q"
    if "spacedim = 2 \<or> spacedim = 3" "0 \<le> q \<and> q < m_number_of_components this" for q c'
    using that by (simp add: written_value_eq)
  have tk: "target_k spacedim this k = k" if "spacedim = 3 \<or> spacedim = 2 \<and> k = 0"
    using that by (auto simp: target_k_def)
  show ?thesis
    using other indep tk operator_call_commute [of spacedim this i j k i' j' k']
      operator_call_fields(1) [of spacedim this i j k]
      operator_call_coarse_shape(1-3) [of spacedim this i j k]
    by blast
qed

text \<open>
  Two invocations on the two-dimensional ramp field, at the coarse cells \<open>(1, 1)\<close> and
  \<open>(0, 1)\<close>.
\<close>

theorem operator_call_frame_witness:
  "target_k 2 ramp_kernel 0 = 0 \<and>
   written_value 2 (ramp_kernel\<lparr>m_coarse := box_view (0, 0, 0) (2, 2, 1) 1 (\<lambda>c. 7)\<rparr>) 1 1 0 0 =
     written_value 2 ramp_kernel 1 1 0 0 \<and>
   a4_get (m_coarse (operator_call 2 ramp_kernel 1 1 0)) 0 1 0 0 = 0 \<and>
   a4_get (m_coarse (operator_call 2 ramp_kernel 1 1 0)) 1 1 0 1 = 0 \<and>
   m_fine (operator_call 2 ramp_kernel 1 1 0) = m_fine ramp_kernel \<and>
   operator_call 2 (operator_call 2 ramp_kernel 1 1 0) 0 1 0 =
     operator_call 2 (operator_call 2 ramp_kernel 0 1 0) 1 1 0"
proof -
  have n: "m_number_of_components ramp_kernel = 1" by (simp add: ramp_kernel_def)
  have c: "a4_get (m_coarse ramp_kernel) a b e q = 0" for a b e q
    by (simp add: ramp_kernel_def box_view_def a4_get_def)
  from operator_call_frame [where spacedim = 2 and this = ramp_kernel and i = 1 and j = 1 and k = 0
      and i' = 0 and j' = 1 and k' = 0]
  show ?thesis by (simp add: n c)
qed



section \<open>Properties of the Cartesian nodal algorithm\<close>



text \<open>
  Claim C5: for every field, coefficient table and index, and along each of the three axes,
  the downward derivative of the nodal algorithm equals the upward derivative.
\<close>

theorem nodal_downward_is_upward:
  "DownwardDx F coefs_x n_coefs_x i j k = UpwardDx F coefs_x n_coefs_x i j k \<and>
   DownwardDy wdim F coefs_y n_coefs_y i j k = UpwardDy wdim F coefs_y n_coefs_y i j k \<and>
   DownwardDz wdim F coefs_z n_coefs_z i j k = UpwardDz wdim F coefs_z n_coefs_z i j k"
  by (simp add: DownwardDx_def DownwardDy_def DownwardDz_def)

section \<open>Properties of the guard-cell manager\<close>

lemma intvect_le_refl: "intvect_le a a"
  by (cases a) (simp add: intvect_le_def)

lemma intvect_max_mono:
  assumes "intvect_le a b"
  shows "intvect_le (intvect_max x a) (intvect_max x b)"
  using assms by (cases a, cases b, cases x) (auto simp: intvect_le_def intvect_max_def)

lemma intvect_max_upper:
  assumes "intvect_le a b"
  shows "intvect_le a (intvect_max x b)"
  using assms by (cases a, cases b, cases x) (auto simp: intvect_le_def intvect_max_def)

lemma foldr_max_filter:
  "intvect_le (foldr intvect_max (map g (filter P xs)) z) (foldr intvect_max (map g xs) z)"
proof (induction xs)
  case Nil
  show ?case by (simp add: intvect_le_refl)
next
  case (Cons x xs)
  then show ?case by (simp add: intvect_max_mono intvect_max_upper)
qed

lemma required_width_safe:
  "intvect_le (required_width features opts False kind) (required_width features opts True kind)"
proof -
  have "filter (\<lambda>(enabled, width). True \<or> enabled) (features opts) = features opts"
    by simp
  then show ?thesis
    unfolding required_width_def
    using foldr_max_filter [of "\<lambda>(enabled, width). width kind" "\<lambda>(enabled, width). False \<or> enabled"
        "features opts" TheZeroVector]
    by simp
qed

lemma Init_widths:
  "all_widths (Init features opts safe this) =
     map (required_width features opts safe)
       [Alloc_EB, Alloc_J, Alloc_Rho, Alloc_F, FieldSolver, FieldSolverF, FieldGather,
        UpdateAux, MovingWindow, Extra]"
  by (simp add: all_widths_def Init_def)

text \<open>
  Claim C7: for every configuration of the other inputs, every component of every width
  vector computed with \<^verbatim>\<open>safe_guard_cells = true\<close> is greater than or equal to the
  corresponding component computed with \<^verbatim>\<open>safe_guard_cells = false\<close>.
\<close>

theorem safe_guard_cells_widths:
  "list_all2 intvect_le
     (all_widths (Init features opts False this1))
     (all_widths (Init features opts True this2))"
  unfolding Init_widths by (simp add: required_width_safe)

section \<open>Properties of the PSATD algorithm in RZ geometry\<close>

lemma Initialize_sets_flag:
  "coefficients_initialized (InitializeSpectralCoefficients c k_of X_of f this)"
  by (simp add: InitializeSpectralCoefficients_def Let_def)

lemma Initialize_when_ready:
  "coefficients_initialized this \<Longrightarrow> InitializeSpectralCoefficients c k_of X_of f this = this"
  by (simp add: InitializeSpectralCoefficients_def)

lemma Initialize_first:
  "\<not> coefficients_initialized this \<Longrightarrow>
   C_coef (InitializeSpectralCoefficients c k_of X_of f this) =
     map (\<lambda>k. cos (c * k * dt this)) (k_of f (modified_kz_vec this)) \<and>
   S_ck_coef (InitializeSpectralCoefficients c k_of X_of f this) =
     map (\<lambda>k. sin (c * k * dt this) / (c * k)) (k_of f (modified_kz_vec this))"
  by (simp add: InitializeSpectralCoefficients_def Let_def)

text \<open>
  Claim C3: after a first call of \<^verbatim>\<open>InitializeSpectralCoefficients\<close> the flag is set and a
  second call returns the algorithm as it is, whatever field data it is given; the five
  coefficient tables are also unchanged by a second call made after the saved time step was
  changed.  The first call on a newly constructed algorithm computes \<open>C\<close> and \<open>S_ck\<close> from the
  saved time step.
\<close>

theorem initialize_coefficients_once:
  "coefficients_initialized (InitializeSpectralCoefficients c k_of X_of f1 this) \<and>
   InitializeSpectralCoefficients c2 k_of2 X_of2 f2 (InitializeSpectralCoefficients c k_of X_of f1 this) =
     InitializeSpectralCoefficients c k_of X_of f1 this \<and>
   coefficient_tables
     (InitializeSpectralCoefficients c2 k_of2 X_of2 f2
        ((InitializeSpectralCoefficients c k_of X_of f1 this)\<lparr>dt := dt2\<rparr>)) =
     coefficient_tables (InitializeSpectralCoefficients c k_of X_of f1 this) \<and>
   C_coef (InitializeSpectralCoefficients c k_of X_of f1 (PsatdAlgorithmRZ_ctor kz dt_step)) =
     map (\<lambda>k. cos (c * k * dt_step)) (k_of f1 kz) \<and>
   S_ck_coef (InitializeSpectralCoefficients c k_of X_of f1 (PsatdAlgorithmRZ_ctor kz dt_step)) =
     map (\<lambda>k. sin (c * k * dt_step) / (c * k)) (k_of f1 kz)"
proof -
  let ?s = "InitializeSpectralCoefficients c k_of X_of f1 this"
  have flag: "coefficients_initialized ?s" by (rule Initialize_sets_flag)
  have again: "InitializeSpectralCoefficients c2 k_of2 X_of2 f2 ?s = ?s"
    using flag by (rule Initialize_when_ready)
  have "coefficients_initialized (?s\<lparr>dt := dt2\<rparr>)" using flag by simp
  then have "InitializeSpectralCoefficients c2 k_of2 X_of2 f2 (?s\<lparr>dt := dt2\<rparr>) = ?s\<lparr>dt := dt2\<rparr>"
    by (rule Initialize_when_ready)
  then have other_dt: "coefficient_tables (InitializeSpectralCoefficients c2 k_of2 X_of2 f2 (?s\<lparr>dt := dt2\<rparr>)) =
      coefficient_tables ?s"
    by (simp add: coefficient_tables_def)
  have "\<not> coefficients_initialized (PsatdAlgorithmRZ_ctor kz dt_step)"
    by (simp add: PsatdAlgorithmRZ_ctor_def)
  from Initialize_first [OF this, of c k_of X_of f1]
  have first: "C_coef (InitializeSpectralCoefficients c k_of X_of f1 (PsatdAlgorithmRZ_ctor kz dt_step)) =
     map (\<lambda>k. cos (c * k * dt_step)) (k_of f1 kz) \<and>
   S_ck_coef (InitializeSpectralCoefficients c k_of X_of f1 (PsatdAlgorithmRZ_ctor kz dt_step)) =
     map (\<lambda>k. sin (c * k * dt_step) / (c * k)) (k_of f1 kz)"
    by (simp add: PsatdAlgorithmRZ_ctor_def)
  from flag again other_dt first show ?thesis by blast
qed

end
